theory Spec2Isabelle
  imports Main
begin

section \<open>JavaScript values and completions\<close>

text \<open>
  The wrappers of \<^verbatim>\<open>src/tryCatch.ts\<close> handle values of any kind and never look inside
  them, so a value is one of the primitive kinds or a reference to an object (an
  \<^verbatim>\<open>Error\<close> instance, a plain object, an array, a function), known by its address only.
\<close>

datatype jsval =
    JUndefined
  | JNull
  | JBool bool
  | JNum int
  | JStr string
  | JObj nat

text \<open>
  A piece of synchronous code ends in one of three ways: it returns a value, it throws a
  value, or it never comes back. It runs in a state \<open>'s\<close> (everything the code can read
  and write), which it returns updated.
\<close>

datatype 'a completion = Normal 'a | Throw jsval | Diverge

type_synonym ('s, 'a) comp = "'s \<Rightarrow> 'a completion \<times> 's"

definition js_return :: "'a \<Rightarrow> ('s, 'a) comp" where
  "js_return v = (\<lambda>s. (Normal v, s))"

definition js_throw :: "jsval \<Rightarrow> ('s, 'a) comp" where
  "js_throw c = (\<lambda>s. (Throw c, s))"

text \<open>\<^verbatim>\<open>const x = m; f x\<close>: the rest runs only when \<open>m\<close> returns.\<close>

definition js_bind :: "('s, 'a) comp \<Rightarrow> ('a \<Rightarrow> ('s, 'b) comp) \<Rightarrow> ('s, 'b) comp" where
  "js_bind m f = (\<lambda>s. case m s of
       (Normal v, s') \<Rightarrow> f v s'
     | (Throw c, s') \<Rightarrow> (Throw c, s')
     | (Diverge, s') \<Rightarrow> (Diverge, s'))"

text \<open>\<^verbatim>\<open>try { body } catch (error) { handler }\<close>: the handler runs on what the body threw.\<close>

definition js_try :: "('s, 'a) comp \<Rightarrow> (jsval \<Rightarrow> ('s, 'a) comp) \<Rightarrow> ('s, 'a) comp" where
  "js_try body handler = (\<lambda>s. case body s of
       (Normal v, s') \<Rightarrow> (Normal v, s')
     | (Throw c, s') \<Rightarrow> handler c s'
     | (Diverge, s') \<Rightarrow> (Diverge, s'))"

section \<open>Promises\<close>

text \<open>
  A promise is modelled by how it settles: fulfilled with a value, rejected with a cause,
  or pending for ever. \<^verbatim>\<open>await\<close> turns the settlement into a completion at the point
  of suspension; an \<^verbatim>\<open>async\<close> function turns the completion of its body into the
  settlement of the promise it returns.
\<close>

datatype 'a promise = Fulfilled 'a | Rejected jsval | Pending

definition await :: "jsval promise \<Rightarrow> ('s, jsval) comp" where
  "await p = (\<lambda>s. case p of
       Fulfilled v \<Rightarrow> (Normal v, s)
     | Rejected c \<Rightarrow> (Throw c, s)
     | Pending \<Rightarrow> (Diverge, s))"

definition async :: "(unit, 'a) comp \<Rightarrow> 'a promise" where
  "async body = (case fst (body ()) of
       Normal v \<Rightarrow> Fulfilled v
     | Throw c \<Rightarrow> Rejected c
     | Diverge \<Rightarrow> Pending)"

section \<open>The Result model\<close>

text \<open>
  \<^verbatim>\<open>type Result<T, E> = Success<T> | Failure<E>\<close>. At run time both variants are an object
  with the three properties \<^verbatim>\<open>data\<close>, \<^verbatim>\<open>error\<close> and \<^verbatim>\<open>success\<close>; the type parameters
  are erased, and \<^verbatim>\<open>null\<close> is a value like any other.
\<close>

record result =
  data :: jsval
  error :: jsval
  success :: bool

text \<open>\<^verbatim>\<open>error as E\<close>: a type assertion, erased by the compiler.\<close>

definition as_E :: "jsval \<Rightarrow> jsval" where
  "as_E v = v"

section \<open>The wrappers (src/tryCatch.ts)\<close>

definition tryCatch :: "jsval promise \<Rightarrow> result promise" where
  "tryCatch promise = async
     (js_try
        (js_bind (await promise) (\<lambda>result.
           js_return \<lparr>data = result, error = JNull, success = True\<rparr>))
        (\<lambda>error.
           js_return \<lparr>data = JNull, error = as_E error, success = False\<rparr>))"

definition tryCatchSync :: "('s, jsval) comp \<Rightarrow> ('s, result) comp" where
  "tryCatchSync callback =
     js_try
       (js_bind callback (\<lambda>result.
          js_return \<lparr>data = result, error = JNull, success = True\<rparr>))
       (\<lambda>error.
          js_return \<lparr>data = JNull, error = as_E error, success = False\<rparr>)"

section \<open>The compiled wrappers (dist/cjs/tryCatch.js)\<close>

definition tryCatch_cjs :: "jsval promise \<Rightarrow> result promise" where
  "tryCatch_cjs promise = async
     (js_try
        (js_bind (await promise) (\<lambda>result.
           js_return \<lparr>data = result, error = JNull, success = True\<rparr>))
        (\<lambda>error.
           js_return \<lparr>data = JNull, error = error, success = False\<rparr>))"

definition tryCatchSync_cjs :: "('s, jsval) comp \<Rightarrow> ('s, result) comp" where
  "tryCatchSync_cjs callback =
     js_try
       (js_bind callback (\<lambda>result.
          js_return \<lparr>data = result, error = JNull, success = True\<rparr>))
       (\<lambda>error.
          js_return \<lparr>data = JNull, error = error, success = False\<rparr>)"

section \<open>Counting invocations\<close>

text \<open>
  To count how often a thunk is invoked, it is run on a state that carries a counter
  beside the thunk's own state; every invocation adds one.
\<close>

definition counted :: "('s, 'a) comp \<Rightarrow> (nat \<times> 's, 'a) comp" where
  "counted callback = (\<lambda>(n, s). case callback s of (out, s') \<Rightarrow> (out, (Suc n, s')))"

section \<open>Populated fields\<close>

text \<open>
  The data model calls \<^verbatim>\<open>null\<close> the absence-value: a field is populated when it holds
  anything else. The predicates below are the invariant as the data model words it.
\<close>

definition populated :: "jsval \<Rightarrow> bool" where
  "populated v = (v \<noteq> JNull)"

definition exactly_one_populated :: "result \<Rightarrow> bool" where
  "exactly_one_populated r = (populated (data r) \<noteq> populated (error r))"

definition success_agrees :: "result \<Rightarrow> bool" where
  "success_agrees r = (success r = populated (data r))"

section \<open>How the wrappers complete\<close>

lemma tryCatchSync_Normal:
  "callback s = (Normal v, s') \<Longrightarrow>
   tryCatchSync callback s = (Normal \<lparr>data = v, error = JNull, success = True\<rparr>, s')"
  by (simp add: tryCatchSync_def js_try_def js_bind_def js_return_def)

lemma tryCatchSync_Throw:
  "callback s = (Throw c, s') \<Longrightarrow>
   tryCatchSync callback s = (Normal \<lparr>data = JNull, error = c, success = False\<rparr>, s')"
  by (simp add: tryCatchSync_def js_try_def js_bind_def js_return_def as_E_def)

lemma tryCatchSync_Diverge:
  "callback s = (Diverge, s') \<Longrightarrow> tryCatchSync callback s = (Diverge, s')"
  by (simp add: tryCatchSync_def js_try_def js_bind_def)

lemma tryCatchSync_js_return:
  "tryCatchSync (js_return v) s = (Normal \<lparr>data = v, error = JNull, success = True\<rparr>, s)"
  by (rule tryCatchSync_Normal) (simp add: js_return_def)

lemma tryCatchSync_js_throw:
  "tryCatchSync (js_throw c) s = (Normal \<lparr>data = JNull, error = c, success = False\<rparr>, s)"
  by (rule tryCatchSync_Throw) (simp add: js_throw_def)

lemma tryCatch_Fulfilled:
  "tryCatch (Fulfilled v) = Fulfilled \<lparr>data = v, error = JNull, success = True\<rparr>"
  by (simp add: tryCatch_def async_def js_try_def js_bind_def js_return_def await_def)

lemma tryCatch_Rejected:
  "tryCatch (Rejected c) = Fulfilled \<lparr>data = JNull, error = c, success = False\<rparr>"
  by (simp add: tryCatch_def async_def js_try_def js_bind_def js_return_def await_def as_E_def)

lemma tryCatch_Pending:
  "tryCatch Pending = Pending"
  by (simp add: tryCatch_def async_def js_try_def js_bind_def await_def)

section \<open>Success path\<close>

text \<open>
  C1. When the wrapped computation returns (sync) or resolves with (async) a value \<open>v\<close>,
  the wrapper produces exactly the record with \<open>data = v\<close>, \<open>error = null\<close> and
  \<open>success = true\<close>.
\<close>

theorem success_record:
  "(fst (callback s) = Normal v \<longrightarrow>
      fst (tryCatchSync callback s) = Normal \<lparr>data = v, error = JNull, success = True\<rparr>)
   \<and> tryCatch (Fulfilled v) = Fulfilled \<lparr>data = v, error = JNull, success = True\<rparr>"
proof (intro conjI impI)
  assume "fst (callback s) = Normal v"
  then have "callback s = (Normal v, snd (callback s))"
    by (simp add: prod_eq_iff)
  then show "fst (tryCatchSync callback s) = Normal \<lparr>data = v, error = JNull, success = True\<rparr>"
    by (simp add: tryCatchSync_Normal)
next
  show "tryCatch (Fulfilled v) = Fulfilled \<lparr>data = v, error = JNull, success = True\<rparr>"
    by (rule tryCatch_Fulfilled)
qed

theorem success_record_witness:
  "fst (js_return (JNum 42) ()) = Normal (JNum 42)
   \<and> fst (tryCatchSync (js_return (JNum 42)) ()) =
       Normal \<lparr>data = JNum 42, error = JNull, success = True\<rparr>
   \<and> tryCatch (Fulfilled (JStr ''ok'')) =
       Fulfilled \<lparr>data = JStr ''ok'', error = JNull, success = True\<rparr>"
proof -
  have h: "fst (js_return (JNum 42) ()) = Normal (JNum 42)"
    by (simp add: js_return_def)
  from success_record [of "js_return (JNum 42)" "()" "JNum 42"] h
  have "fst (tryCatchSync (js_return (JNum 42)) ()) =
          Normal \<lparr>data = JNum 42, error = JNull, success = True\<rparr>"
    by simp
  moreover from success_record [of "js_return (JNum 42)" "()" "JStr ''ok''"]
  have "tryCatch (Fulfilled (JStr ''ok'')) =
          Fulfilled \<lparr>data = JStr ''ok'', error = JNull, success = True\<rparr>"
    by simp
  ultimately show ?thesis using h by simp
qed

section \<open>Failure path\<close>

text \<open>
  C2. When the wrapped computation raises (sync) or rejects with (async) a cause \<open>c\<close>,
  the wrapper produces exactly the record with \<open>data = null\<close>, \<open>error = c\<close> and
  \<open>success = false\<close>; \<open>c\<close> is the value that was raised, as it was.
\<close>

theorem failure_record:
  "(fst (callback s) = Throw c \<longrightarrow>
      fst (tryCatchSync callback s) = Normal \<lparr>data = JNull, error = c, success = False\<rparr>)
   \<and> tryCatch (Rejected c) = Fulfilled \<lparr>data = JNull, error = c, success = False\<rparr>"
proof (intro conjI impI)
  assume "fst (callback s) = Throw c"
  then have "callback s = (Throw c, snd (callback s))"
    by (simp add: prod_eq_iff)
  then show "fst (tryCatchSync callback s) = Normal \<lparr>data = JNull, error = c, success = False\<rparr>"
    by (simp add: tryCatchSync_Throw)
next
  show "tryCatch (Rejected c) = Fulfilled \<lparr>data = JNull, error = c, success = False\<rparr>"
    by (rule tryCatch_Rejected)
qed

theorem failure_record_witness:
  "fst ((js_throw (JObj 7) :: (unit, jsval) comp) ()) = Throw (JObj 7)
   \<and> fst (tryCatchSync (js_throw (JObj 7)) ()) =
       Normal \<lparr>data = JNull, error = JObj 7, success = False\<rparr>
   \<and> tryCatch (Rejected (JObj 8)) =
       Fulfilled \<lparr>data = JNull, error = JObj 8, success = False\<rparr>"
proof -
  have h: "fst ((js_throw (JObj 7) :: (unit, jsval) comp) ()) = Throw (JObj 7)"
    by (simp add: js_throw_def)
  from failure_record [of "js_throw (JObj 7)" "()" "JObj 7"] h
  have "fst (tryCatchSync (js_throw (JObj 7)) ()) =
          Normal \<lparr>data = JNull, error = JObj 7, success = False\<rparr>"
    by simp
  moreover from failure_record [of "js_throw (JObj 7)" "()" "JObj 8"]
  have "tryCatch (Rejected (JObj 8)) =
          Fulfilled \<lparr>data = JNull, error = JObj 8, success = False\<rparr>"
    by simp
  ultimately show ?thesis using h by simp
qed

section \<open>Totality\<close>

text \<open>
  C3. Whatever the thunk or the promise does, the call of \<open>tryCatchSync\<close> never throws
  and the promise returned by \<open>tryCatch\<close> never rejects: a thunk that throws makes
  \<open>tryCatchSync\<close> return a Result, and a promise that rejects makes \<open>tryCatch\<close> fulfil
  with a Result.
\<close>

theorem wrappers_never_raise:
  "(\<forall>c. fst (tryCatchSync callback s) \<noteq> Throw c)
   \<and> (\<forall>c. tryCatch promise \<noteq> Rejected c)
   \<and> (\<forall>c. fst (callback s) = Throw c \<longrightarrow> (\<exists>r. fst (tryCatchSync callback s) = Normal r))
   \<and> (\<forall>c. promise = Rejected c \<longrightarrow> (\<exists>r. tryCatch promise = Fulfilled r))"
proof (intro conjI allI impI)
  fix c
  obtain out s' where cb: "callback s = (out, s')"
    by (cases "callback s")
  show "fst (tryCatchSync callback s) \<noteq> Throw c"
  proof (cases out)
    case (Normal v)
    with cb show ?thesis by (simp add: tryCatchSync_Normal)
  next
    case (Throw d)
    with cb show ?thesis by (simp add: tryCatchSync_Throw)
  next
    case Diverge
    with cb show ?thesis by (simp add: tryCatchSync_Diverge)
  qed
next
  fix c
  show "tryCatch promise \<noteq> Rejected c"
    by (cases promise) (simp_all add: tryCatch_Fulfilled tryCatch_Rejected tryCatch_Pending)
next
  fix c
  assume "fst (callback s) = Throw c"
  then have "callback s = (Throw c, snd (callback s))"
    by (simp add: prod_eq_iff)
  then show "\<exists>r. fst (tryCatchSync callback s) = Normal r"
    by (simp add: tryCatchSync_Throw)
next
  fix c
  assume "promise = Rejected c"
  then show "\<exists>r. tryCatch promise = Fulfilled r"
    by (simp add: tryCatch_Rejected)
qed

theorem wrappers_never_raise_witness:
  "fst ((js_throw (JStr ''boom'') :: (unit, jsval) comp) ()) = Throw (JStr ''boom'')
   \<and> (\<exists>r. fst (tryCatchSync (js_throw (JStr ''boom'')) ()) = Normal r)
   \<and> (\<exists>r. tryCatch (Rejected (JStr ''boom'')) = Fulfilled r)
   \<and> fst (tryCatchSync (js_throw (JStr ''boom'')) ()) \<noteq> Throw (JStr ''boom'')
   \<and> tryCatch (Rejected (JStr ''boom'')) \<noteq> Rejected (JStr ''boom'')"
proof -
  have h: "fst ((js_throw (JStr ''boom'') :: (unit, jsval) comp) ()) = Throw (JStr ''boom'')"
    by (simp add: js_throw_def)
  note w = wrappers_never_raise [of "js_throw (JStr ''boom'')" "()" "Rejected (JStr ''boom'')"]
  from w h have "\<exists>r. fst (tryCatchSync (js_throw (JStr ''boom'')) ()) = Normal r"
    by blast
  moreover from w have "\<exists>r. tryCatch (Rejected (JStr ''boom'')) = Fulfilled r"
    by blast
  moreover from w have "fst (tryCatchSync (js_throw (JStr ''boom'')) ()) \<noteq> Throw (JStr ''boom'')"
    by blast
  moreover from w have "tryCatch (Rejected (JStr ''boom'')) \<noteq> Rejected (JStr ''boom'')"
    by blast
  ultimately show ?thesis using h by blast
qed

section \<open>One invocation\<close>

text \<open>
  C5. One call of \<open>tryCatchSync\<close> invokes the thunk exactly once, however the thunk ends:
  run on a counted thunk, it completes as on the thunk itself, the counter is one higher
  and the thunk's state is the state after a single invocation.
\<close>

theorem tryCatchSync_invokes_once:
  "tryCatchSync (counted callback) (n, s) =
     (fst (tryCatchSync callback s), (Suc n, snd (callback s)))"
proof -
  obtain out s' where cb: "callback s = (out, s')"
    by (cases "callback s")
  then have ccb: "counted callback (n, s) = (out, (Suc n, s'))"
    by (simp add: counted_def)
  show ?thesis
  proof (cases out)
    case (Normal v)
    with cb ccb show ?thesis by (simp add: tryCatchSync_Normal)
  next
    case (Throw c)
    with cb ccb show ?thesis by (simp add: tryCatchSync_Throw)
  next
    case Diverge
    with cb ccb show ?thesis by (simp add: tryCatchSync_Diverge)
  qed
qed

section \<open>A thunk that returns undefined\<close>

text \<open>
  C6. A thunk that returns \<open>undefined\<close> without raising gives \<open>success = true\<close> with
  \<open>data\<close> equal to \<open>undefined\<close>: it is a success, not a failure.
\<close>

theorem undefined_is_success:
  "fst (callback s) = Normal JUndefined \<Longrightarrow>
   (\<exists>r. fst (tryCatchSync callback s) = Normal r
        \<and> success r \<and> data r = JUndefined \<and> error r = JNull)"
proof -
  assume "fst (callback s) = Normal JUndefined"
  then have "callback s = (Normal JUndefined, snd (callback s))"
    by (simp add: prod_eq_iff)
  then show ?thesis
    by (simp add: tryCatchSync_Normal)
qed

theorem undefined_is_success_witness:
  "fst (js_return JUndefined ()) = Normal JUndefined
   \<and> (\<exists>r. fst (tryCatchSync (js_return JUndefined) ()) = Normal r
           \<and> success r \<and> data r = JUndefined \<and> error r = JNull)"
proof -
  have h: "fst (js_return JUndefined ()) = Normal JUndefined"
    by (simp add: js_return_def)
  from undefined_is_success [of "js_return JUndefined" "()", OF h] h show ?thesis
    by blast
qed

section \<open>Any raised value is an error payload\<close>

text \<open>
  C7. A raised or rejected value of any kind (a string, a number, a plain object, not only
  an \<^verbatim>\<open>Error\<close>) is accepted as the error payload and stored in \<open>error\<close> as it is: the
  Result is a failure whose \<open>error\<close> is that value, and no value is dropped, since
  different raised values give different Results.
\<close>

theorem any_raised_value_kept:
  "(fst (callback s) = Throw c \<longrightarrow>
      (\<exists>r. fst (tryCatchSync callback s) = Normal r \<and> error r = c \<and> \<not> success r))
   \<and> (\<exists>r. tryCatch (Rejected c) = Fulfilled r \<and> error r = c \<and> \<not> success r)
   \<and> inj (\<lambda>c. fst (tryCatchSync (js_throw c) s))
   \<and> inj (\<lambda>c. tryCatch (Rejected c))"
proof (intro conjI impI)
  assume "fst (callback s) = Throw c"
  then have "callback s = (Throw c, snd (callback s))"
    by (simp add: prod_eq_iff)
  then show "\<exists>r. fst (tryCatchSync callback s) = Normal r \<and> error r = c \<and> \<not> success r"
    by (simp add: tryCatchSync_Throw)
next
  show "\<exists>r. tryCatch (Rejected c) = Fulfilled r \<and> error r = c \<and> \<not> success r"
    by (simp add: tryCatch_Rejected)
next
  show "inj (\<lambda>c. fst (tryCatchSync (js_throw c) s))"
    by (simp add: inj_on_def tryCatchSync_js_throw)
next
  show "inj (\<lambda>c. tryCatch (Rejected c))"
    by (simp add: inj_on_def tryCatch_Rejected)
qed

theorem any_raised_value_kept_witness:
  "fst ((js_throw (JStr ''oops'') :: (unit, jsval) comp) ()) = Throw (JStr ''oops'')
   \<and> (\<exists>r. fst (tryCatchSync (js_throw (JStr ''oops'')) ()) = Normal r
           \<and> error r = JStr ''oops'' \<and> \<not> success r)
   \<and> (\<exists>r. tryCatch (Rejected (JNum 404)) = Fulfilled r
           \<and> error r = JNum 404 \<and> \<not> success r)
   \<and> tryCatch (Rejected (JNum 404)) \<noteq> tryCatch (Rejected (JObj 404))"
proof -
  have h: "fst ((js_throw (JStr ''oops'') :: (unit, jsval) comp) ()) = Throw (JStr ''oops'')"
    by (simp add: js_throw_def)
  from any_raised_value_kept [of "js_throw (JStr ''oops'')" "()" "JStr ''oops''"] h
  have a: "\<exists>r. fst (tryCatchSync (js_throw (JStr ''oops'')) ()) = Normal r
           \<and> error r = JStr ''oops'' \<and> \<not> success r"
    by blast
  note w = any_raised_value_kept [of "js_return JNull" "()" "JNum 404"]
  from w have b: "\<exists>r. tryCatch (Rejected (JNum 404)) = Fulfilled r
           \<and> error r = JNum 404 \<and> \<not> success r"
    by blast
  from w have "inj (\<lambda>c. tryCatch (Rejected c))"
    by blast
  then have c: "tryCatch (Rejected (JNum 404)) \<noteq> tryCatch (Rejected (JObj 404))"
    by (auto dest: injD)
  from h a b c show ?thesis by blast
qed

section \<open>Raising the absence-value\<close>

text \<open>
  C9. Whatever thunk throws \<open>null\<close> (or \<open>undefined\<close>), with whatever effect on the state
  before it throws, \<open>tryCatchSync\<close> returns a Result with \<open>success = false\<close> and
  \<open>error\<close> equal to the raised value; for \<open>null\<close> the record is
  \<open>{data: null, error: null, success: false}\<close>, so only \<open>success\<close> tells the failure.
  A promise rejected with \<open>null\<close> or \<open>undefined\<close> gives the same records.
\<close>

theorem raised_null_is_failure:
  "(fst (callback s) = Throw JNull \<longrightarrow>
      fst (tryCatchSync callback s) =
        Normal \<lparr>data = JNull, error = JNull, success = False\<rparr>)
   \<and> (fst (callback s) = Throw JUndefined \<longrightarrow>
      fst (tryCatchSync callback s) =
        Normal \<lparr>data = JNull, error = JUndefined, success = False\<rparr>)
   \<and> tryCatch (Rejected JNull) =
        Fulfilled \<lparr>data = JNull, error = JNull, success = False\<rparr>
   \<and> tryCatch (Rejected JUndefined) =
        Fulfilled \<lparr>data = JNull, error = JUndefined, success = False\<rparr>"
proof (intro conjI impI)
  assume "fst (callback s) = Throw JNull"
  then have "callback s = (Throw JNull, snd (callback s))"
    by (simp add: prod_eq_iff)
  then show "fst (tryCatchSync callback s) =
      Normal \<lparr>data = JNull, error = JNull, success = False\<rparr>"
    by (simp add: tryCatchSync_Throw)
next
  assume "fst (callback s) = Throw JUndefined"
  then have "callback s = (Throw JUndefined, snd (callback s))"
    by (simp add: prod_eq_iff)
  then show "fst (tryCatchSync callback s) =
      Normal \<lparr>data = JNull, error = JUndefined, success = False\<rparr>"
    by (simp add: tryCatchSync_Throw)
next
  show "tryCatch (Rejected JNull) =
      Fulfilled \<lparr>data = JNull, error = JNull, success = False\<rparr>"
    by (rule tryCatch_Rejected)
next
  show "tryCatch (Rejected JUndefined) =
      Fulfilled \<lparr>data = JNull, error = JUndefined, success = False\<rparr>"
    by (rule tryCatch_Rejected)
qed

text \<open>
  The thunks of the witness count up the state before they throw.
\<close>

theorem raised_null_is_failure_witness:
  "fst ((\<lambda>n. (Throw JNull :: jsval completion, Suc n)) (0::nat)) = Throw JNull
   \<and> fst (tryCatchSync (\<lambda>n. (Throw JNull, Suc n)) (0::nat)) =
        Normal \<lparr>data = JNull, error = JNull, success = False\<rparr>
   \<and> fst ((\<lambda>n. (Throw JUndefined :: jsval completion, Suc n)) (0::nat)) = Throw JUndefined
   \<and> fst (tryCatchSync (\<lambda>n. (Throw JUndefined, Suc n)) (0::nat)) =
        Normal \<lparr>data = JNull, error = JUndefined, success = False\<rparr>"
proof -
  have h1: "fst ((\<lambda>n. (Throw JNull :: jsval completion, Suc n)) (0::nat)) = Throw JNull"
    by simp
  have h2: "fst ((\<lambda>n. (Throw JUndefined :: jsval completion, Suc n)) (0::nat)) =
      Throw JUndefined"
    by simp
  from raised_null_is_failure
    [where callback = "\<lambda>n. (Throw JNull :: jsval completion, Suc n)" and s = "0::nat"] h1
  have a: "fst (tryCatchSync (\<lambda>n. (Throw JNull, Suc n)) (0::nat)) =
        Normal \<lparr>data = JNull, error = JNull, success = False\<rparr>"
    by blast
  from raised_null_is_failure
    [where callback = "\<lambda>n. (Throw JUndefined :: jsval completion, Suc n)" and s = "0::nat"] h2
  have b: "fst (tryCatchSync (\<lambda>n. (Throw JUndefined, Suc n)) (0::nat)) =
        Normal \<lparr>data = JNull, error = JUndefined, success = False\<rparr>"
    by blast
  from h1 a h2 b show ?thesis
    by blast
qed

section \<open>The compiled module\<close>

text \<open>
  C10. The functions \<open>tryCatch\<close> and \<open>tryCatchSync\<close> of \<^verbatim>\<open>dist/cjs/tryCatch.js\<close> are
  extensionally equal to those of \<^verbatim>\<open>src/tryCatch.ts\<close>: on every input they give the
  same Result, on the success path and on the failure path.
\<close>

theorem cjs_equals_source:
  "tryCatch_cjs promise = tryCatch promise
   \<and> tryCatchSync_cjs callback s = tryCatchSync callback s"
  by (simp add: tryCatch_cjs_def tryCatch_def tryCatchSync_cjs_def tryCatchSync_def as_E_def)

section \<open>The invariant of a produced Result\<close>

text \<open>
  C4, as the code has it. Every Result produced by either wrapper comes from a value
  returned (resolved) or a cause raised (rejected), and at least one of \<open>data\<close> and
  \<open>error\<close> is \<open>null\<close> in it: on a returned value \<open>v\<close> the Result has \<open>success\<close> true,
  \<open>data = v\<close> and \<open>error = null\<close>; on a raised cause \<open>c\<close> it has \<open>success\<close> false,
  \<open>error = c\<close> and \<open>data = null\<close>. When \<open>v\<close> (or \<open>c\<close>) is not \<open>null\<close>, exactly one of
  the two fields is populated and \<open>success\<close> is true exactly when it is \<open>data\<close>; when it
  is \<open>null\<close>, neither field is populated and only \<open>success\<close> tells the outcome.
\<close>

theorem result_invariant:
  "(fst (callback s) = Normal v \<longrightarrow>
      (\<exists>r. fst (tryCatchSync callback s) = Normal r
         \<and> success r \<and> data r = v \<and> error r = JNull
         \<and> (v \<noteq> JNull \<longrightarrow> exactly_one_populated r \<and> success_agrees r)
         \<and> (v = JNull \<longrightarrow> \<not> populated (data r) \<and> \<not> populated (error r))))
   \<and> (fst (callback s) = Throw c \<longrightarrow>
      (\<exists>r. fst (tryCatchSync callback s) = Normal r
         \<and> \<not> success r \<and> data r = JNull \<and> error r = c
         \<and> (c \<noteq> JNull \<longrightarrow> exactly_one_populated r \<and> success_agrees r)
         \<and> (c = JNull \<longrightarrow> \<not> populated (data r) \<and> \<not> populated (error r))))
   \<and> (\<exists>r. tryCatch (Fulfilled v) = Fulfilled r
         \<and> success r \<and> data r = v \<and> error r = JNull
         \<and> (v \<noteq> JNull \<longrightarrow> exactly_one_populated r \<and> success_agrees r)
         \<and> (v = JNull \<longrightarrow> \<not> populated (data r) \<and> \<not> populated (error r)))
   \<and> (\<exists>r. tryCatch (Rejected c) = Fulfilled r
         \<and> \<not> success r \<and> data r = JNull \<and> error r = c
         \<and> (c \<noteq> JNull \<longrightarrow> exactly_one_populated r \<and> success_agrees r)
         \<and> (c = JNull \<longrightarrow> \<not> populated (data r) \<and> \<not> populated (error r)))
   \<and> (fst (tryCatchSync callback s) = Normal r' \<longrightarrow>
         (\<exists>w. fst (callback s) = Normal w) \<or> (\<exists>d. fst (callback s) = Throw d))
   \<and> (tryCatch promise = Fulfilled r' \<longrightarrow>
         (\<exists>w. promise = Fulfilled w) \<or> (\<exists>d. promise = Rejected d))"
proof (intro conjI impI)
  assume "fst (callback s) = Normal v"
  then have "callback s = (Normal v, snd (callback s))"
    by (simp add: prod_eq_iff)
  then have "fst (tryCatchSync callback s) =
      Normal \<lparr>data = v, error = JNull, success = True\<rparr>"
    by (simp add: tryCatchSync_Normal)
  then show "\<exists>r. fst (tryCatchSync callback s) = Normal r
         \<and> success r \<and> data r = v \<and> error r = JNull
         \<and> (v \<noteq> JNull \<longrightarrow> exactly_one_populated r \<and> success_agrees r)
         \<and> (v = JNull \<longrightarrow> \<not> populated (data r) \<and> \<not> populated (error r))"
    by (simp add: populated_def exactly_one_populated_def success_agrees_def)
next
  assume "fst (callback s) = Throw c"
  then have "callback s = (Throw c, snd (callback s))"
    by (simp add: prod_eq_iff)
  then have "fst (tryCatchSync callback s) =
      Normal \<lparr>data = JNull, error = c, success = False\<rparr>"
    by (simp add: tryCatchSync_Throw)
  then show "\<exists>r. fst (tryCatchSync callback s) = Normal r
         \<and> \<not> success r \<and> data r = JNull \<and> error r = c
         \<and> (c \<noteq> JNull \<longrightarrow> exactly_one_populated r \<and> success_agrees r)
         \<and> (c = JNull \<longrightarrow> \<not> populated (data r) \<and> \<not> populated (error r))"
    by (simp add: populated_def exactly_one_populated_def success_agrees_def)
next
  show "\<exists>r. tryCatch (Fulfilled v) = Fulfilled r
         \<and> success r \<and> data r = v \<and> error r = JNull
         \<and> (v \<noteq> JNull \<longrightarrow> exactly_one_populated r \<and> success_agrees r)
         \<and> (v = JNull \<longrightarrow> \<not> populated (data r) \<and> \<not> populated (error r))"
    by (simp add: tryCatch_Fulfilled populated_def exactly_one_populated_def
        success_agrees_def)
next
  show "\<exists>r. tryCatch (Rejected c) = Fulfilled r
         \<and> \<not> success r \<and> data r = JNull \<and> error r = c
         \<and> (c \<noteq> JNull \<longrightarrow> exactly_one_populated r \<and> success_agrees r)
         \<and> (c = JNull \<longrightarrow> \<not> populated (data r) \<and> \<not> populated (error r))"
    by (simp add: tryCatch_Rejected populated_def exactly_one_populated_def
        success_agrees_def)
next
  assume produced: "fst (tryCatchSync callback s) = Normal r'"
  obtain out s' where cb: "callback s = (out, s')"
    by (cases "callback s")
  show "(\<exists>w. fst (callback s) = Normal w) \<or> (\<exists>d. fst (callback s) = Throw d)"
  proof (cases out)
    case (Normal w)
    with cb show ?thesis by simp
  next
    case (Throw d)
    with cb show ?thesis by simp
  next
    case Diverge
    with cb have "tryCatchSync callback s = (Diverge, s')"
      by (simp add: tryCatchSync_Diverge)
    with produced show ?thesis by simp
  qed
next
  assume produced: "tryCatch promise = Fulfilled r'"
  show "(\<exists>w. promise = Fulfilled w) \<or> (\<exists>d. promise = Rejected d)"
  proof (cases promise)
    case (Fulfilled w)
    then show ?thesis by simp
  next
    case (Rejected d)
    then show ?thesis by simp
  next
    case Pending
    with produced show ?thesis by (simp add: tryCatch_Pending)
  qed
qed

text \<open>
  The witness takes a thunk that returns 42 and a thunk that throws \<open>null\<close>.
\<close>

theorem result_invariant_witness:
  "fst (js_return (JNum 42) ()) = Normal (JNum 42)
   \<and> JNum 42 \<noteq> JNull
   \<and> (\<exists>r. fst (tryCatchSync (js_return (JNum 42)) ()) = Normal r
         \<and> success r \<and> data r = JNum 42 \<and> error r = JNull
         \<and> exactly_one_populated r \<and> success_agrees r)
   \<and> fst ((js_throw JNull :: (unit, jsval) comp) ()) = Throw JNull
   \<and> (\<exists>r. fst (tryCatchSync (js_throw JNull) ()) = Normal r
         \<and> \<not> success r \<and> \<not> populated (data r) \<and> \<not> populated (error r))"
proof -
  have h1: "fst (js_return (JNum 42) ()) = Normal (JNum 42)"
    by (simp add: js_return_def)
  have n1: "JNum 42 \<noteq> JNull"
    by simp
  have h2: "fst ((js_throw JNull :: (unit, jsval) comp) ()) = Throw JNull"
    by (simp add: js_throw_def)
  from result_invariant
    [where callback = "js_return (JNum 42)" and s = "()" and v = "JNum 42"] h1 n1
  have a: "\<exists>r. fst (tryCatchSync (js_return (JNum 42)) ()) = Normal r
         \<and> success r \<and> data r = JNum 42 \<and> error r = JNull
         \<and> exactly_one_populated r \<and> success_agrees r"
    by blast
  from result_invariant
    [where callback = "js_throw JNull :: (unit, jsval) comp" and s = "()" and c = JNull] h2
  have b: "\<exists>r. fst (tryCatchSync (js_throw JNull) ()) = Normal r
         \<and> \<not> success r \<and> \<not> populated (data r) \<and> \<not> populated (error r)"
    by blast
  from h1 n1 a h2 b show ?thesis
    by blast
qed

text \<open>
  C4, as stated, fails: a thunk that returns \<open>null\<close> gives a Result in which neither
  field is populated, and whose \<open>success\<close> is true although \<open>data\<close> is not populated.
\<close>

theorem returned_null_counterexample:
  "fst (tryCatchSync (js_return JNull) ()) =
     Normal \<lparr>data = JNull, error = JNull, success = True\<rparr>
   \<and> \<not> exactly_one_populated \<lparr>data = JNull, error = JNull, success = True\<rparr>
   \<and> \<not> success_agrees \<lparr>data = JNull, error = JNull, success = True\<rparr>"
  by (simp add: tryCatchSync_js_return populated_def exactly_one_populated_def
      success_agrees_def)

end
